theory Spec2Isabelle
  imports Complex_Main
begin

section \<open>JavaScript values\<close>

text \<open>
  The handlers receive JSON. A parsed JSON value is a \<open>json\<close>; a variable that may be
  \<open>undefined\<close> is a \<open>json option\<close> with \<open>None\<close> for \<open>undefined\<close>. An object lists each
  of its properties once. Numbers are exact rationals here: the binary rounding of IEEE
  doubles is not modelled.
\<close>

datatype json =
    JNull
  | JBool bool
  | JNum rat
  | JStr string
  | JArr "json list"
  | JObj "(string \<times> json) list"

text \<open>A thrown \<open>Error\<close> object: its \<open>name\<close>, \<open>message\<close> and \<open>stack\<close>.\<close>

datatype js_error = JsError (err_name: string) (message: string) (stack: string)

text \<open>JavaScript truthiness, as used by \<open>!x\<close>, \<open>x || d\<close> and \<open>if (x)\<close>.\<close>

fun truthy :: "json option \<Rightarrow> bool" where
  "truthy None = False"
| "truthy (Some JNull) = False"
| "truthy (Some (JBool b)) = b"
| "truthy (Some (JNum n)) = (n \<noteq> 0)"
| "truthy (Some (JStr s)) = (s \<noteq> [])"
| "truthy (Some (JArr xs)) = True"
| "truthy (Some (JObj kvs)) = True"

text \<open>\<open>x || d\<close> on a possibly undefined JSON value.\<close>

definition or_else :: "json option \<Rightarrow> json \<Rightarrow> json" where
  "or_else x d = (case x of None \<Rightarrow> d | Some v \<Rightarrow> if truthy (Some v) then v else d)"

text \<open>
  Reading a property in \<open>const { name, ... } = body\<close>: an object gives the stored value
  or \<open>undefined\<close>; a number, string, boolean or array has none of the properties read
  here. (Destructuring \<open>null\<close> throws; the handler model treats that case before.)
\<close>

definition field :: "json \<Rightarrow> string \<Rightarrow> json option" where
  "field b k = (case b of JObj kvs \<Rightarrow> map_of kvs k | _ \<Rightarrow> None)"

text \<open>Truthiness of a string-valued variable that may be undefined.\<close>

definition truthy_str :: "string option \<Rightarrow> bool" where
  "truthy_str x = (case x of None \<Rightarrow> False | Some s \<Rightarrow> s \<noteq> [])"

section \<open>Data model\<close>

text \<open>An item of the jobs table. \<open>lastExecutedAt\<close> and \<open>ruleName\<close> are absent until set.\<close>

record job =
  jobId :: string
  name :: json
  description :: json
  type :: string
  scheduleExpression :: json
  executeAt :: json
  payload :: json
  status :: string
  createdAt :: int
  updatedAt :: int
  invocationCount :: int
  lastExecutedAt :: "int option"
  ruleName :: "string option"

text \<open>An item of the invocations table.\<close>

record invocation =
  invocationId :: string
  inv_jobId :: string
  timestamp :: int
  inv_status :: string
  startedAt :: int
  inv_input :: "json option"
  completedAt :: "int option"
  duration :: "int option"
  inv_error :: "string option"
  errorStack :: "string option"
  inv_output :: "json option"

text \<open>The \<open>Input\<close> of a rule target and the payload of an asynchronous invoke:
  the object \<open>{ jobId, payload }\<close>.\<close>

type_synonym target_input = "string \<times> json option"

text \<open>An EventBridge rule with its targets (target \<open>Id\<close> and \<open>Input\<close>).\<close>

record rule =
  rule_expression :: json
  rule_state :: string
  rule_targets :: "(string \<times> target_input) list"

section \<open>The managed services\<close>

text \<open>
  Every \<open>client.send(new XCommand(...))\<close> of the source is a \<open>command\<close>. The document
  client's commands on the jobs table are \<open>GetCommand\<close>, \<open>PutJobCommand\<close>,
  \<open>UpdateCommand\<close> (increment, timestamp, status) and \<open>DeleteCommand\<close>; on the
  invocations table \<open>PutInvocationCommand\<close>.
\<close>

datatype command =
    GetCommand string
  | PutJobCommand job
  | UpdateCommand string int int string
  | DeleteCommand string
  | PutInvocationCommand invocation
  | InvokeCommand target_input
  | PutRuleCommand string json
  | AddPermissionCommand string
  | PutTargetsCommand string "(string \<times> target_input) list"
  | ListTargetsByRuleCommand string
  | RemoveTargetsCommand string "string list"
  | DeleteRuleCommand string
  | RemovePermissionCommand string

text \<open>
  The state of the services: the two tables, the rules, the statement ids of the
  executor's invoke permissions, the queue of asynchronous invokes of the executor,
  and the log of every command sent (what \<open>mock.calls()\<close> shows in the tests).
\<close>

record world =
  jobsTable :: "string \<rightharpoonup> job"
  invocationsTable :: "string \<rightharpoonup> invocation"
  rules :: "string \<rightharpoonup> rule"
  permissions :: "string set"
  invoked :: "target_input list"
  calls :: "command list"

text \<open>
  What a handler run takes from outside: the uuid it draws, the clock (\<open>now k\<close> is the
  \<open>k\<close>-th reading of this run), \<open>JSON.parse\<close> (\<open>None\<close> is a SyntaxError),
  \<open>new Date(v).getTime()\<close> (\<open>None\<close> is NaN), \<open>Date.prototype.toISOString\<close>, the job
  logic (it returns a result or throws), and which commands the services reject.
\<close>

record env =
  uuidv4 :: string
  now :: "nat \<Rightarrow> int"
  JSON_parse :: "string \<Rightarrow> json option"
  parseDate :: "json \<Rightarrow> int option"
  toISOString :: "int \<Rightarrow> string"
  executeJobLogic :: "job \<Rightarrow> json \<Rightarrow> js_error + json"
  fault :: "command \<Rightarrow> js_error option"

text \<open>The effect of a command that the service accepts, or the service's own error.\<close>

fun effect :: "command \<Rightarrow> world \<Rightarrow> js_error + world" where
  "effect (GetCommand k) w = Inr w"
| "effect (PutJobCommand j) w = Inr (w\<lparr>jobsTable := (jobsTable w)(jobId j \<mapsto> j)\<rparr>)"
| "effect (UpdateCommand k inc ts st) w =
     (case jobsTable w k of
        None \<Rightarrow> Inl (JsError ''ValidationException'' ''attribute does not exist'' [])
      | Some j \<Rightarrow> Inr (w\<lparr>jobsTable := (jobsTable w)(k \<mapsto>
          j\<lparr>invocationCount := invocationCount j + inc, lastExecutedAt := Some ts,
            updatedAt := ts, status := st\<rparr>)\<rparr>))"
| "effect (DeleteCommand k) w = Inr (w\<lparr>jobsTable := (jobsTable w)(k := None)\<rparr>)"
| "effect (PutInvocationCommand i) w =
     Inr (w\<lparr>invocationsTable := (invocationsTable w)(invocationId i \<mapsto> i)\<rparr>)"
| "effect (InvokeCommand p) w = Inr (w\<lparr>invoked := invoked w @ [p]\<rparr>)"
| "effect (PutRuleCommand n e) w =
     Inr (w\<lparr>rules := (rules w)(n \<mapsto>
       \<lparr>rule_expression = e, rule_state = ''ENABLED'',
        rule_targets = (case rules w n of None \<Rightarrow> [] | Some r \<Rightarrow> rule_targets r)\<rparr>)\<rparr>)"
| "effect (AddPermissionCommand s) w =
     (if s \<in> permissions w
      then Inl (JsError ''ResourceConflictException'' ''statement id already exists'' [])
      else Inr (w\<lparr>permissions := insert s (permissions w)\<rparr>))"
| "effect (PutTargetsCommand n ts) w =
     (case rules w n of
        None \<Rightarrow> Inl (JsError ''ResourceNotFoundException'' ''rule does not exist'' [])
      | Some r \<Rightarrow> Inr (w\<lparr>rules := (rules w)(n \<mapsto>
          r\<lparr>rule_targets := ts @ filter (\<lambda>t. fst t \<notin> fst ` set ts) (rule_targets r)\<rparr>)\<rparr>))"
| "effect (ListTargetsByRuleCommand n) w =
     (case rules w n of
        None \<Rightarrow> Inl (JsError ''ResourceNotFoundException'' ''rule does not exist'' [])
      | Some r \<Rightarrow> Inr w)"
| "effect (RemoveTargetsCommand n ids) w =
     (case rules w n of
        None \<Rightarrow> Inl (JsError ''ResourceNotFoundException'' ''rule does not exist'' [])
      | Some r \<Rightarrow> Inr (w\<lparr>rules := (rules w)(n \<mapsto>
          r\<lparr>rule_targets := filter (\<lambda>t. fst t \<notin> set ids) (rule_targets r)\<rparr>)\<rparr>))"
| "effect (DeleteRuleCommand n) w =
     (case rules w n of
        None \<Rightarrow> Inr w
      | Some r \<Rightarrow>
          if rule_targets r = [] then Inr (w\<lparr>rules := (rules w)(n := None)\<rparr>)
          else Inl (JsError ''ValidationException'' ''rule has targets'' []))"
| "effect (RemovePermissionCommand s) w =
     (if s \<in> permissions w then Inr (w\<lparr>permissions := permissions w - {s}\<rparr>)
      else Inl (JsError ''ResourceNotFoundException'' ''no such statement'' []))"

text \<open>
  \<open>await client.send(c)\<close>: the command is logged; it rejects with the injected fault or
  the service's own error and then changes nothing else, or it resolves with its effect.
\<close>

definition send :: "env \<Rightarrow> command \<Rightarrow> world \<Rightarrow> js_error option \<times> world" where
  "send env c w =
     (let w1 = w\<lparr>calls := calls w @ [c]\<rparr> in
      case fault env c of
        Some e \<Rightarrow> (Some e, w1)
      | None \<Rightarrow> (case effect c w1 of Inl e \<Rightarrow> (Some e, w1) | Inr w2 \<Rightarrow> (None, w2)))"

section \<open>HTTP responses\<close>

text \<open>
  The JSON body of a response, by shape: \<open>{ error }\<close>, \<open>{ error, details }\<close>,
  \<open>{ message, job }\<close> of CreateJob, \<open>{ message, jobId, jobName }\<close> of DeleteJob, and the
  executor's \<open>{ message, invocationId, jobId, duration, error }\<close>,
  \<open>{ message, invocationId, jobId, duration, result }\<close> and
  \<open>{ error, details, invocationId }\<close>.
\<close>

datatype response_body =
    ErrorBody string
  | FailureBody string string
  | CreatedBody string job
  | DeletedBody string string json
  | ExecutionFailedBody string string string int string
  | ExecutedBody string string string int json
  | CriticalBody string string string

record response =
  statusCode :: nat
  body :: response_body

section \<open>CreateJob (createJob.js)\<close>

text \<open>\<open>event.body\<close>: absent, \<open>null\<close>, or a string.\<close>

datatype event_body = BodyUndefined | BodyNull | BodyText string

text \<open>
  Lines 23-24: \<open>JSON.parse(event.body)\<close> and the destructuring. \<open>JSON.parse(undefined)\<close>
  throws a SyntaxError, as does a text that is not JSON; \<open>JSON.parse(null)\<close> is \<open>null\<close>,
  and destructuring \<open>null\<close> throws a TypeError.
\<close>

definition parse_body :: "env \<Rightarrow> event_body \<Rightarrow> js_error + json" where
  "parse_body env b =
     (let parsed = (case b of
                      BodyUndefined \<Rightarrow> None
                    | BodyNull \<Rightarrow> Some JNull
                    | BodyText s \<Rightarrow> JSON_parse env s) in
      case parsed of
        None \<Rightarrow> Inl (JsError ''SyntaxError'' ''Unexpected token'' [])
      | Some JNull \<Rightarrow> Inl (JsError ''TypeError'' ''Cannot destructure'' [])
      | Some v \<Rightarrow> Inr v)"

definition bad_request :: "string \<Rightarrow> response" where
  "bad_request msg = \<lparr>statusCode = 400, body = ErrorBody msg\<rparr>"

text \<open>Lines 218-229: the catch-all of CreateJob.\<close>

definition create_failed :: "js_error \<Rightarrow> response" where
  "create_failed e = \<lparr>statusCode = 500, body = FailureBody ''Failed to create job'' (message e)\<rparr>"

text \<open>Lines 59-76: the check of \<open>executeAt\<close> for a once job; \<open>None\<close> when it passes.\<close>

definition validate_executeAt :: "env \<Rightarrow> json option \<Rightarrow> json option \<Rightarrow> response option" where
  "validate_executeAt env ty executeAt_in =
     (if ty = Some (JStr ''once'') then
        (case executeAt_in of
           None \<Rightarrow> Some (bad_request ''Invalid executeAt format. Use ISO 8601 (e.g., 2026-01-15T10:00:00Z)'')
         | Some v \<Rightarrow>
            (case parseDate env v of
               None \<Rightarrow> Some (bad_request ''Invalid executeAt format. Use ISO 8601 (e.g., 2026-01-15T10:00:00Z)'')
             | Some executeDate \<Rightarrow>
                 if executeDate \<le> now env 0
                 then Some (bad_request ''executeAt must be in the future'')
                 else None))
      else None)"

text \<open>
  Lines 78-93: the job item. For a once job the clock was read once before (line 69).
  Where this is reached \<open>name\<close> is truthy and \<open>type\<close> is one of the three strings,
  so the item holds the request's values.
\<close>

definition new_job :: "env \<Rightarrow> json \<Rightarrow> job" where
  "new_job env b =
     (let ty = (case field b ''type'' of Some (JStr t) \<Rightarrow> t | _ \<Rightarrow> []);
          ts = now env (if ty = ''once'' then 1 else 0) in
      \<lparr>jobId = uuidv4 env,
       name = (case field b ''name'' of Some v \<Rightarrow> v | None \<Rightarrow> JNull),
       description = or_else (field b ''description'') (JStr []),
       type = ty,
       scheduleExpression = or_else (field b ''scheduleExpression'') JNull,
       executeAt = or_else (field b ''executeAt'') JNull,
       payload = or_else (field b ''payload'') (JObj []),
       status = (if ty = ''immediate'' then ''executing'' else ''scheduled''),
       createdAt = ts,
       updatedAt = ts,
       invocationCount = 0,
       lastExecutedAt = None,
       ruleName = None\<rparr>)"

text \<open>
  Lines 135-149 and 179-193: \<open>AddPermission\<close> in its own \<open>try\<close>; only a
  \<open>ResourceConflictException\<close> is swallowed.
\<close>

definition add_permission :: "env \<Rightarrow> string \<Rightarrow> world \<Rightarrow> js_error option \<times> world" where
  "add_permission env rn w =
     (case send env (AddPermissionCommand (rn @ ''-permission'')) w of
        (Some e, w1) \<Rightarrow>
          if err_name e \<noteq> ''ResourceConflictException'' then (Some e, w1) else (None, w1)
      | (None, w1) \<Rightarrow> (None, w1))"

text \<open>
  Lines 125-162 and 169-206: rule, permission, target, for a rule named \<open>rn\<close> with
  schedule expression \<open>expr\<close>. The first rejection stops the sequence.
\<close>

definition register_rule ::
  "env \<Rightarrow> string \<Rightarrow> json \<Rightarrow> target_input \<Rightarrow> world \<Rightarrow> js_error option \<times> world" where
  "register_rule env rn expr inp w =
     (case send env (PutRuleCommand rn expr) w of
        (Some e, w1) \<Rightarrow> (Some e, w1)
      | (None, w1) \<Rightarrow>
         (case add_permission env rn w1 of
            (Some e, w2) \<Rightarrow> (Some e, w2)
          | (None, w2) \<Rightarrow> send env (PutTargetsCommand rn [(''1'', inp)]) w2))"

text \<open>
  Lines 103-207: what follows the write of the job, by type. The result is the thrown
  error, if any, and the job object as the response will show it: \<open>job.ruleName\<close> is
  assigned on the local object after the item was written (lines 162 and 206), and no
  command writes it to the table. \<open>toISOString\<close> of an invalid date throws a RangeError.
\<close>

definition after_save ::
  "env \<Rightarrow> job \<Rightarrow> json option \<Rightarrow> world \<Rightarrow> (js_error + job) \<times> world" where
  "after_save env j payload_in w =
     (if type j = ''immediate'' then
        (case send env (InvokeCommand (jobId j, payload_in)) w of
           (Some e, w1) \<Rightarrow> (Inl e, w1)
         | (None, w1) \<Rightarrow> (Inr (j\<lparr>status := ''executing''\<rparr>), w1))
      else if type j = ''once'' then
        (let rn = ''job-'' @ jobId j in
         case parseDate env (executeAt j) of
           None \<Rightarrow> (Inl (JsError ''RangeError'' ''Invalid time value'' []), w)
         | Some executeDate \<Rightarrow>
            (let atExpression = ''at('' @ take 19 (toISOString env executeDate) @ '')'' in
             case register_rule env rn (JStr atExpression) (jobId j, payload_in) w of
               (Some e, w1) \<Rightarrow> (Inl e, w1)
             | (None, w1) \<Rightarrow> (Inr (j\<lparr>ruleName := Some rn\<rparr>), w1)))
      else if type j = ''cron'' then
        (let rn = ''job-'' @ jobId j in
         case register_rule env rn (scheduleExpression j) (jobId j, payload_in) w of
           (Some e, w1) \<Rightarrow> (Inl e, w1)
         | (None, w1) \<Rightarrow> (Inr (j\<lparr>ruleName := Some rn\<rparr>), w1))
      else (Inr j, w))"

text \<open>Lines 95-99 and after: write the job, then \<open>after_save\<close>.\<close>

definition save_and_schedule :: "env \<Rightarrow> json \<Rightarrow> world \<Rightarrow> response \<times> world" where
  "save_and_schedule env b w =
     (let j = new_job env b in
      case send env (PutJobCommand j) w of
        (Some e, w1) \<Rightarrow> (create_failed e, w1)
      | (None, w1) \<Rightarrow>
         (case after_save env j (field b ''payload'') w1 of
            (Inl e, w2) \<Rightarrow> (create_failed e, w2)
          | (Inr j', w2) \<Rightarrow>
              (\<lparr>statusCode = 201, body = CreatedBody ''Job created successfully'' j'\<rparr>, w2)))"

text \<open>The handler of createJob.js, lines 19-230.\<close>

definition createJob_handler :: "env \<Rightarrow> event_body \<Rightarrow> world \<Rightarrow> response \<times> world" where
  "createJob_handler env ev_body w =
     (case parse_body env ev_body of
        Inl e \<Rightarrow> (create_failed e, w)
      | Inr b \<Rightarrow>
         (let name_in = field b ''name'';
              type_in = field b ''type'';
              scheduleExpression_in = field b ''scheduleExpression'';
              executeAt_in = field b ''executeAt'' in
          if \<not> truthy name_in \<or> \<not> truthy type_in then
            (bad_request ''name and type are required fields'', w)
          else if type_in \<notin> {Some (JStr ''immediate''), Some (JStr ''once''), Some (JStr ''cron'')} then
            (bad_request ''Invalid job type. Must be: immediate, once, or cron'', w)
          else if type_in = Some (JStr ''once'') \<and> \<not> truthy executeAt_in then
            (bad_request ''executeAt is required for once type jobs (ISO 8601 format)'', w)
          else if type_in = Some (JStr ''cron'') \<and> \<not> truthy scheduleExpression_in then
            (bad_request ''scheduleExpression is required for cron type jobs'', w)
          else
            (case validate_executeAt env type_in executeAt_in of
               Some resp \<Rightarrow> (resp, w)
             | None \<Rightarrow> save_and_schedule env b w)))"

section \<open>The job executor (part_001)\<close>

text \<open>The executor's event: \<open>{ jobId, payload }\<close>, each possibly absent.\<close>

record exec_event =
  ev_jobId :: "string option"
  ev_payload :: "json option"

text \<open>
  Lines 194-224: the outer \<open>catch\<close>. It tries to record a failed invocation and answers
  500; a rejection of that write is only logged. \<open>k\<close> is the number of clock readings
  made before; the catch reads the clock twice.
\<close>

definition critical_error ::
  "env \<Rightarrow> string option \<Rightarrow> nat \<Rightarrow> js_error \<Rightarrow> world \<Rightarrow> response \<times> world" where
  "critical_error env jid k e w =
     (let ts = now env 0;
          item = \<lparr>invocationId = uuidv4 env,
                  inv_jobId = (if truthy_str jid then the jid else ''unknown''),
                  timestamp = ts,
                  inv_status = ''failed'',
                  startedAt = ts,
                  inv_input = None,
                  completedAt = Some (now env k),
                  duration = Some (now env (Suc k) - ts),
                  inv_error = Some (message e),
                  errorStack = Some (stack e),
                  inv_output = None\<rparr> in
      (\<lparr>statusCode = 500, body = CriticalBody ''Job execution failed'' (message e) (uuidv4 env)\<rparr>,
       snd (send env (PutInvocationCommand item) w)))"

text \<open>Lines 114-122: the job's new status.\<close>

definition newStatus :: "job \<Rightarrow> bool \<Rightarrow> string" where
  "newStatus j executionError =
     (if type j = ''immediate'' then (if executionError then ''failed'' else ''completed'')
      else if type j = ''once'' then (if executionError then ''failed'' else ''completed'')
      else if type j = ''cron'' then ''scheduled''
      else status j)"

text \<open>
  Lines 139-167: the cleanup of a once job's rule. The whole block is in a \<open>try\<close> whose
  \<open>catch\<close> only logs, and the removal of the permission has its own.
\<close>

definition cleanup_rule :: "env \<Rightarrow> job \<Rightarrow> world \<Rightarrow> world" where
  "cleanup_rule env j w =
     (if type j = ''once'' \<and> truthy_str (ruleName j) then
        (let rn = the (ruleName j) in
         case send env (RemoveTargetsCommand rn [''1'']) w of
           (Some e, w1) \<Rightarrow> w1
         | (None, w1) \<Rightarrow>
            (case send env (DeleteRuleCommand rn) w1 of
               (Some e, w2) \<Rightarrow> w2
             | (None, w2) \<Rightarrow> snd (send env (RemovePermissionCommand (rn @ ''-permission'')) w2)))
      else w)"

text \<open>Lines 86-98: the invocation record after the job logic ran.\<close>

definition finished_invocation :: "invocation \<Rightarrow> js_error + json \<Rightarrow> int \<Rightarrow> int \<Rightarrow> invocation" where
  "finished_invocation invoc outcome endTime dur =
     (case outcome of
        Inl executionError \<Rightarrow>
          invoc\<lparr>inv_status := ''failed'', completedAt := Some endTime, duration := Some dur,
              inv_error := Some (message executionError),
              errorStack := Some (stack executionError)\<rparr>
      | Inr result \<Rightarrow>
          invoc\<lparr>inv_status := ''completed'', completedAt := Some endTime, duration := Some dur,
              inv_output := Some result\<rparr>)"

text \<open>
  Lines 52-192: the run of a job that was found. \<open>timestamp\<close> was read at line 17,
  \<open>startTime\<close> is the second reading of the clock and \<open>endTime\<close> the third.
\<close>

definition run_job :: "env \<Rightarrow> job \<Rightarrow> string \<Rightarrow> json \<Rightarrow> world \<Rightarrow> response \<times> world" where
  "run_job env j jid pl w =
     (let ts = now env 0;
          startTime = now env 1;
          invoc = \<lparr>invocationId = uuidv4 env, inv_jobId = jid, timestamp = ts,
                 inv_status = ''running'', startedAt = startTime, inv_input = Some pl,
                 completedAt = None, duration = None, inv_error = None, errorStack = None,
                 inv_output = None\<rparr> in
      case send env (PutInvocationCommand invoc) w of
        (Some e, w1) \<Rightarrow> critical_error env (Some jid) 2 e w1
      | (None, w1) \<Rightarrow>
         (let outcome = executeJobLogic env j pl;
              endTime = now env 2;
              dur = endTime - startTime in
          case send env (PutInvocationCommand (finished_invocation invoc outcome endTime dur)) w1 of
            (Some e, w2) \<Rightarrow> critical_error env (Some jid) 3 e w2
          | (None, w2) \<Rightarrow>
             (case send env (UpdateCommand jid 1 ts (newStatus j (isl outcome))) w2 of
                (Some e, w3) \<Rightarrow> critical_error env (Some jid) 3 e w3
              | (None, w3) \<Rightarrow>
                 (let w4 = cleanup_rule env j w3 in
                  case outcome of
                    Inl executionError \<Rightarrow>
                      (\<lparr>statusCode = 500,
                        body = ExecutionFailedBody ''Job execution failed'' (uuidv4 env) jid dur
                                 (message executionError)\<rparr>, w4)
                  | Inr result \<Rightarrow>
                      (\<lparr>statusCode = 200,
                        body = ExecutedBody ''Job executed successfully'' (uuidv4 env) jid dur
                                 result\<rparr>, w4)))))"

text \<open>The handler of the executor, lines 13-226.\<close>

definition jobExecutor_handler :: "env \<Rightarrow> exec_event \<Rightarrow> world \<Rightarrow> response \<times> world" where
  "jobExecutor_handler env event w =
     (if truthy_str (ev_jobId event) then
        (let jid = the (ev_jobId event);
             pl = or_else (ev_payload event) (JObj []) in
         case send env (GetCommand jid) w of
           (Some e, w1) \<Rightarrow> critical_error env (Some jid) 1 e w1
         | (None, w1) \<Rightarrow>
            (case jobsTable w1 jid of
               None \<Rightarrow> (\<lparr>statusCode = 404, body = ErrorBody ''Job not found''\<rparr>, w1)
             | Some j \<Rightarrow> run_job env j jid pl w1))
      else (bad_request ''Invalid event format - jobId required'', w))"

section \<open>DeleteJob (deleteJob.js)\<close>

text \<open>
  Lines 51-93: the removal of the job's rule, in a \<open>try\<close> whose \<open>catch\<close> only logs;
  the removal of the permission has its own.
\<close>

definition delete_rule :: "env \<Rightarrow> job \<Rightarrow> world \<Rightarrow> world" where
  "delete_rule env j w =
     (if truthy_str (ruleName j) \<and> (type j = ''once'' \<or> type j = ''cron'') then
        (let rn = the (ruleName j) in
         case send env (ListTargetsByRuleCommand rn) w of
           (Some e, w1) \<Rightarrow> w1
         | (None, w1) \<Rightarrow>
            (let targets = (case rules w1 rn of None \<Rightarrow> [] | Some r \<Rightarrow> rule_targets r) in
             case (if targets \<noteq> [] then send env (RemoveTargetsCommand rn (map fst targets)) w1
                   else (None, w1)) of
               (Some e, w2) \<Rightarrow> w2
             | (None, w2) \<Rightarrow>
                (case send env (DeleteRuleCommand rn) w2 of
                   (Some e, w3) \<Rightarrow> w3
                 | (None, w3) \<Rightarrow>
                     snd (send env (RemovePermissionCommand (rn @ ''-permission'')) w3))))
      else w)"

definition delete_failed :: "js_error \<Rightarrow> response" where
  "delete_failed e = \<lparr>statusCode = 500, body = FailureBody ''Failed to delete job'' (message e)\<rparr>"

text \<open>The handler of deleteJob.js, lines 18-123; its argument is
  \<open>event.pathParameters?.jobId\<close>.\<close>

definition deleteJob_handler :: "env \<Rightarrow> string option \<Rightarrow> world \<Rightarrow> response \<times> world" where
  "deleteJob_handler env path_jobId w =
     (if \<not> truthy_str path_jobId then (bad_request ''jobId is required'', w)
      else
        (let jid = the path_jobId in
         case send env (GetCommand jid) w of
           (Some e, w1) \<Rightarrow> (delete_failed e, w1)
         | (None, w1) \<Rightarrow>
            (case jobsTable w1 jid of
               None \<Rightarrow> (\<lparr>statusCode = 404, body = ErrorBody ''Job not found''\<rparr>, w1)
             | Some j \<Rightarrow>
                (case send env (DeleteCommand jid) (delete_rule env j w1) of
                   (Some e, w3) \<Rightarrow> (delete_failed e, w3)
                 | (None, w3) \<Rightarrow>
                     (\<lparr>statusCode = 200,
                       body = DeletedBody ''Job deleted successfully'' jid (name j)\<rparr>, w3)))))"

section \<open>Statistics of GetJob (createJob.js, lines 309-327)\<close>



text \<open>\<open>successRate\<close> is the string of \<open>toFixed(2)\<close>, or the number \<open>0\<close>.\<close>

datatype rate = RateFixed2 int | RateNumber rat




section \<open>Classes of commands\<close>

text \<open>The commands that register a rule: rule, permission, target.\<close>

fun is_registration :: "command \<Rightarrow> bool" where
  "is_registration (PutRuleCommand n e) = True"
| "is_registration (AddPermissionCommand s) = True"
| "is_registration (PutTargetsCommand n ts) = True"
| "is_registration c = False"

text \<open>The commands that write the jobs table.\<close>

fun writes_jobs :: "command \<Rightarrow> bool" where
  "writes_jobs (PutJobCommand j) = True"
| "writes_jobs (UpdateCommand k i t s) = True"
| "writes_jobs (DeleteCommand k) = True"
| "writes_jobs c = False"

text \<open>The commands of the document client (both tables).\<close>

fun is_table_command :: "command \<Rightarrow> bool" where
  "is_table_command (GetCommand k) = True"
| "is_table_command (PutJobCommand j) = True"
| "is_table_command (UpdateCommand k i t s) = True"
| "is_table_command (DeleteCommand k) = True"
| "is_table_command (PutInvocationCommand i) = True"
| "is_table_command c = False"

text \<open>
  No job item in the table carries a \<open>ruleName\<close>; and the commands that would store one.
\<close>

definition no_ruleName :: "world \<Rightarrow> bool" where
  "no_ruleName w = (\<forall>k j. jobsTable w k = Some j \<longrightarrow> ruleName j = None)"

fun stores_ruleName :: "command \<Rightarrow> bool" where
  "stores_ruleName (PutJobCommand j) = (ruleName j \<noteq> None)"
| "stores_ruleName c = False"

section \<open>Example runs\<close>

text \<open>
  A concrete world and environment for the example runs below: services that hold
  nothing yet; a clock that reads 1000, 1100, 1200, ...; a \<open>JSON.parse\<close> that yields the
  given value; dates given as numbers of milliseconds, and one fixed ISO string; a job
  logic that throws when the payload says \<open>fail: true\<close> and otherwise returns the
  payload; no rejected command.
\<close>

definition empty_world :: world where
  "empty_world = \<lparr>jobsTable = Map.empty, invocationsTable = Map.empty, rules = Map.empty,
                   permissions = {}, invoked = [], calls = []\<rparr>"

definition example_env :: "string \<Rightarrow> json \<Rightarrow> env" where
  "example_env uid parsed =
     \<lparr>uuidv4 = uid,
      now = (\<lambda>k. 1000 + 100 * int k),
      JSON_parse = (\<lambda>s. Some parsed),
      parseDate = (\<lambda>v. case v of JNum n \<Rightarrow> Some \<lfloor>n\<rfloor> | _ \<Rightarrow> None),
      toISOString = (\<lambda>t. ''1970-01-01T00:00:05.000Z''),
      executeJobLogic = (\<lambda>j p. if field p ''fail'' = Some (JBool True)
                                 then Inl (JsError ''Error'' ''job failed'' []) else Inr p),
      fault = (\<lambda>c. None)\<rparr>"

text \<open>Request bodies: an immediate job that also names a schedule, a cron job, and a
  once job due at the given time.\<close>

definition immediate_with_schedule :: json where
  "immediate_with_schedule =
     JObj [(''name'', JStr ''report''), (''type'', JStr ''immediate''),
           (''scheduleExpression'', JStr ''rate(5 minutes)'')]"

definition cron_request :: json where
  "cron_request =
     JObj [(''name'', JStr ''report''), (''type'', JStr ''cron''),
           (''scheduleExpression'', JStr ''rate(5 minutes)'')]"

definition once_request :: "rat \<Rightarrow> json" where
  "once_request t =
     JObj [(''name'', JStr ''report''), (''type'', JStr ''once''), (''executeAt'', JNum t)]"

text \<open>An environment whose rule engine rejects every \<open>PutTargets\<close>.\<close>

definition targets_rejected :: "command \<Rightarrow> js_error option" where
  "targets_rejected c =
     (case c of PutTargetsCommand n ts \<Rightarrow> Some (JsError ''InternalException'' ''rejected'' [])
      | _ \<Rightarrow> None)"

text \<open>The worlds left by the creation of a once job due at 5000, of a cron job and of
  an immediate job, each in the empty world with job id \<open>id-1\<close>.\<close>

definition created_once :: world where
  "created_once = snd (createJob_handler (example_env ''id-1'' (once_request 5000))
                         (BodyText ''request'') empty_world)"

definition created_cron :: world where
  "created_cron = snd (createJob_handler (example_env ''id-1'' cron_request)
                         (BodyText ''request'') empty_world)"


text \<open>Executor events for job \<open>id-1\<close>: one with no payload, one whose payload makes the
  example job logic throw.\<close>

definition plain_event :: exec_event where
  "plain_event = \<lparr>ev_jobId = Some ''id-1'', ev_payload = None\<rparr>"



section \<open>Basic facts about the services\<close>

lemmas create_defs = createJob_handler_def parse_body_def field_def validate_executeAt_def
  save_and_schedule_def new_job_def after_save_def register_rule_def add_permission_def
  send_def or_else_def bad_request_def create_failed_def Let_def

lemmas exec_defs = jobExecutor_handler_def run_job_def cleanup_rule_def critical_error_def
  finished_invocation_def newStatus_def truthy_str_def

lemma effect_calls: "effect c w = Inr w' \<Longrightarrow> calls w' = calls w"
  by (cases c) (auto split: option.splits if_splits)

lemma send_calls: "calls (snd (send env c w)) = calls w @ [c]"
  by (auto simp: send_def Let_def split: option.splits sum.splits dest: effect_calls)

lemma effect_jobsTable: "\<not> writes_jobs c \<Longrightarrow> effect c w = Inr w' \<Longrightarrow> jobsTable w' = jobsTable w"
  by (cases c) (auto split: option.splits if_splits)

lemma send_jobsTable: "\<not> writes_jobs c \<Longrightarrow> jobsTable (snd (send env c w)) = jobsTable w"
  by (auto simp: send_def Let_def split: option.splits sum.splits dest: effect_jobsTable)

lemma send_PutJob:
  "send env (PutJobCommand j) w = (None, w1) \<Longrightarrow>
     jobsTable w1 = (jobsTable w)(jobId j \<mapsto> j) \<and> calls w1 = calls w @ [PutJobCommand j]"
  by (auto simp: send_def Let_def split: option.splits)

lemma send_failed:
  "send env c w = (Some e, w1) \<Longrightarrow> w1 = w\<lparr>calls := calls w @ [c]\<rparr>"
  by (auto simp: send_def Let_def split: option.splits sum.splits)

lemma add_permission_log:
  "add_permission env rn w = (x, w1) \<Longrightarrow>
     jobsTable w1 = jobsTable w \<and> calls w1 = calls w @ [AddPermissionCommand (rn @ ''-permission'')]"
  unfolding add_permission_def
  using send_calls[of env "AddPermissionCommand (rn @ ''-permission'')" w]
        send_jobsTable[of "AddPermissionCommand (rn @ ''-permission'')" env w]
  by (auto split: prod.splits option.splits if_splits)

lemma register_rule_log:
  assumes "register_rule env rn expr inp w = (x, w1)"
  shows "jobsTable w1 = jobsTable w \<and>
         (\<exists>rest. calls w1 = calls w @ rest \<and> rest \<noteq> [] \<and> (\<forall>c\<in>set rest. is_registration c)
                 \<and> (x = None \<longrightarrow> length rest = 3))"
proof (cases "send env (PutRuleCommand rn expr) w")
  case (Pair x1 w2)
  have a: "jobsTable w2 = jobsTable w" "calls w2 = calls w @ [PutRuleCommand rn expr]"
    using send_jobsTable[of "PutRuleCommand rn expr" env w] send_calls[of env "PutRuleCommand rn expr" w] Pair
    by simp_all
  show ?thesis
  proof (cases x1)
    case (Some e)
    with assms Pair a show ?thesis by (auto simp: register_rule_def)
  next
    case None
    obtain x2 w3 where ap: "add_permission env rn w2 = (x2, w3)" by (cases "add_permission env rn w2")
    note b = add_permission_log[OF ap]
    show ?thesis
    proof (cases x2)
      case (Some e)
      with assms Pair None ap a b show ?thesis by (auto simp: register_rule_def)
    next
      case n2: None
      let ?c = "PutTargetsCommand rn [(''1'', inp)]"
      have "send env ?c w3 = (x, w1)" using assms Pair None ap n2 by (simp add: register_rule_def)
      then have "jobsTable w1 = jobsTable w3" "calls w1 = calls w3 @ [?c]"
        using send_jobsTable[of ?c env w3] send_calls[of env ?c w3] by simp_all
      with a b show ?thesis by auto
    qed
  qed
qed

section \<open>CreateJob: properties\<close>

lemma after_save_jobsTable:
  assumes "after_save env j p w = (x, w1)"
  shows "jobsTable w1 = jobsTable w"
proof -
  have inv: "jobsTable (snd (send env (InvokeCommand (jobId j, p)) w)) = jobsTable w"
    by (rule send_jobsTable) simp
  show ?thesis
    using assms inv
    by (auto simp: after_save_def Let_def split: if_splits prod.splits option.splits
             dest: register_rule_log)
qed

lemma after_save_log:
  assumes "after_save env j p w = (x, w1)" and "type j = ''once'' \<or> type j = ''cron''"
  shows "\<exists>rest. calls w1 = calls w @ rest \<and> (\<forall>c\<in>set rest. is_registration c)
                \<and> (\<not> isl x \<longrightarrow> length rest = 3)"
  using assms
  by (auto simp: after_save_def Let_def split: if_splits prod.splits option.splits
           dest!: register_rule_log)
lemma createJob_cases:
  assumes "parse_body env ev_body = Inr b" and "createJob_handler env ev_body w = (r, w')"
  obtains (rejected) "w' = w" "statusCode r = 400"
    | (saved) "save_and_schedule env b w = (r, w')"
        "field b ''type'' \<in> {Some (JStr ''immediate''), Some (JStr ''once''), Some (JStr ''cron'')}"
        "truthy (field b ''name'')"
        "field b ''type'' = Some (JStr ''once'') \<longrightarrow> truthy (field b ''executeAt'')"
        "field b ''type'' = Some (JStr ''cron'') \<longrightarrow> truthy (field b ''scheduleExpression'')"
        "validate_executeAt env (field b ''type'') (field b ''executeAt'') = None"
  using assms
  by (auto simp: createJob_handler_def Let_def bad_request_def validate_executeAt_def
           split: if_splits option.splits)

lemma save_and_schedule_jobsTable:
  assumes "save_and_schedule env b w = (r, w')"
  shows "jobsTable w' = jobsTable w \<or> jobsTable w' = (jobsTable w)(uuidv4 env \<mapsto> new_job env b)"
proof -
  let ?j = "new_job env b"
  have idj: "jobId ?j = uuidv4 env" by (simp add: new_job_def Let_def)
  obtain x w1 where put: "send env (PutJobCommand ?j) w = (x, w1)"
    by (cases "send env (PutJobCommand ?j) w")
  show ?thesis
  proof (cases x)
    case (Some e)
    then show ?thesis
      using assms put send_failed[of env "PutJobCommand ?j" w e w1]
      by (auto simp: save_and_schedule_def Let_def)
  next
    case None
    note p = send_PutJob[OF put[unfolded None]]
    obtain y w2 where as: "after_save env ?j (field b ''payload'') w1 = (y, w2)"
      by (cases "after_save env ?j (field b ''payload'') w1")
    have "w' = w2" using assms put None as
      by (auto simp: save_and_schedule_def Let_def split: sum.splits)
    then show ?thesis using after_save_jobsTable[OF as] p idj by simp
  qed
qed

lemma or_else_set: "or_else x JNull \<noteq> JNull \<longleftrightarrow> truthy x"
  by (cases x) (auto simp: or_else_def)

lemma parse_body_missing:
  "b = BodyUndefined \<or> b = BodyNull \<or> (\<exists>s. b = BodyText s \<and> JSON_parse env s = None)
   \<Longrightarrow> isl (parse_body env b)"
  by (auto simp: parse_body_def)

text \<open>
  Claim C10. A CreateJob request whose body is missing (\<open>undefined\<close> or \<open>null\<close>) or is
  not valid JSON is answered 500 by the catch-all, not 400, and nothing is sent to any
  service: the world, the jobs table included, is unchanged.
\<close>

theorem createJob_unparsable_body_500:
  assumes "ev_body = BodyUndefined \<or> ev_body = BodyNull
           \<or> (\<exists>s. ev_body = BodyText s \<and> JSON_parse env s = None)"
  shows "statusCode (fst (createJob_handler env ev_body w)) = 500
         \<and> body (fst (createJob_handler env ev_body w))
             = FailureBody ''Failed to create job'' (message (projl (parse_body env ev_body)))
         \<and> snd (createJob_handler env ev_body w) = w"
  using parse_body_missing[OF assms]
  by (cases "parse_body env ev_body") (simp_all add: createJob_handler_def create_failed_def)

theorem createJob_unparsable_body_500_witness:
  "statusCode (fst (createJob_handler (example_env ''id-1'' cron_request) BodyUndefined empty_world)) = 500
   \<and> snd (createJob_handler (example_env ''id-1'' cron_request) BodyUndefined empty_world) = empty_world"
proof -
  have h: "BodyUndefined = BodyUndefined \<or> BodyUndefined = BodyNull
           \<or> (\<exists>s. BodyUndefined = BodyText s \<and> JSON_parse (example_env ''id-1'' cron_request) s = None)"
    by simp
  show ?thesis using createJob_unparsable_body_500[OF h, of empty_world] by simp
qed

text \<open>
  Claim C3. A CreateJob request of type once whose \<open>executeAt\<close> does not parse to a
  time strictly after the current time (it is absent, unparsable, or not in the future)
  is answered 400, and nothing is sent to any service: no job item is written.
\<close>

theorem createJob_once_bad_executeAt:
  assumes body: "parse_body env ev_body = Inr b"
    and once: "field b ''type'' = Some (JStr ''once'')"
    and bad: "\<forall>v t. field b ''executeAt'' = Some v \<longrightarrow> parseDate env v = Some t \<longrightarrow> t \<le> now env 0"
  shows "statusCode (fst (createJob_handler env ev_body w)) = 400
         \<and> snd (createJob_handler env ev_body w) = w"
  using assms
  by (auto simp: createJob_handler_def Let_def validate_executeAt_def bad_request_def
           split: option.splits)

theorem createJob_once_bad_executeAt_witness:
  "parse_body (example_env ''id-1'' (once_request 1000)) (BodyText ''request'') = Inr (once_request 1000)
   \<and> field (once_request 1000) ''type'' = Some (JStr ''once'')
   \<and> statusCode (fst (createJob_handler (example_env ''id-1'' (once_request 1000))
                        (BodyText ''request'') empty_world)) = 400
   \<and> snd (createJob_handler (example_env ''id-1'' (once_request 1000))
             (BodyText ''request'') empty_world) = empty_world"
proof -
  let ?env = "example_env ''id-1'' (once_request 1000)"
  have b: "parse_body ?env (BodyText ''request'') = Inr (once_request 1000)"
    by (simp add: parse_body_def example_env_def once_request_def)
  have t: "field (once_request 1000) ''type'' = Some (JStr ''once'')"
    by (simp add: field_def once_request_def)
  have bad: "\<forall>v t. field (once_request 1000) ''executeAt'' = Some v \<longrightarrow>
               parseDate ?env v = Some t \<longrightarrow> t \<le> now ?env 0"
    by (simp add: field_def once_request_def example_env_def)
  show ?thesis using b t createJob_once_bad_executeAt[OF b t bad, of empty_world] by simp
qed

text \<open>
  Claim C4, as stated: in every job item written by CreateJob, \<open>scheduleExpression\<close> is
  set if and only if the type is cron (and \<open>executeAt\<close> if and only if it is once). The
  handler copies both fields from the request whatever the type: an immediate job
  whose request names a schedule is stored with that schedule.
\<close>

theorem createJob_written_record_counterexample:
  "map_option (\<lambda>j. (type j, scheduleExpression j))
     (jobsTable (snd (createJob_handler (example_env ''id-1'' immediate_with_schedule)
                        (BodyText ''request'') empty_world)) ''id-1'')
   = Some (''immediate'', JStr ''rate(5 minutes)'')"
  by (simp add: create_defs example_env_def immediate_with_schedule_def empty_world_def)

text \<open>
  Claim C4, amended. In every job item written by CreateJob, \<open>scheduleExpression\<close> is set
  when the type is cron and \<open>executeAt\<close> is set when the type is once; and each of the two
  fields is set (not \<open>null\<close>) exactly when the request gave it a truthy value, whatever
  the type.
\<close>

theorem createJob_written_record:
  assumes body: "parse_body env ev_body = Inr b"
    and after: "jobsTable (snd (createJob_handler env ev_body w)) k = Some j"
    and before: "jobsTable w k \<noteq> Some j"
  shows "(type j = ''cron'' \<longrightarrow> scheduleExpression j \<noteq> JNull)
       \<and> (type j = ''once'' \<longrightarrow> executeAt j \<noteq> JNull)
       \<and> (scheduleExpression j \<noteq> JNull \<longleftrightarrow> truthy (field b ''scheduleExpression''))
       \<and> (executeAt j \<noteq> JNull \<longleftrightarrow> truthy (field b ''executeAt''))"
proof -
  obtain r w' where run: "createJob_handler env ev_body w = (r, w')"
    by (cases "createJob_handler env ev_body w")
  from body run show ?thesis
  proof (cases rule: createJob_cases)
    case rejected
    with after before run show ?thesis by simp
  next
    case saved
    from save_and_schedule_jobsTable[OF saved(1)] after before run
    have j: "j = new_job env b" by (auto split: if_splits)
    have se: "scheduleExpression j = or_else (field b ''scheduleExpression'') JNull"
      and ea: "executeAt j = or_else (field b ''executeAt'') JNull"
      by (simp_all add: j new_job_def Let_def)
    have "type j = ''cron'' \<longrightarrow> field b ''type'' = Some (JStr ''cron'')"
      and "type j = ''once'' \<longrightarrow> field b ''type'' = Some (JStr ''once'')"
      using saved(2) by (auto simp: j new_job_def Let_def)
    with saved(4,5) show ?thesis by (simp add: se ea or_else_set)
  qed
qed


theorem createJob_written_record_witness:
  "parse_body (example_env ''id-1'' cron_request) (BodyText ''request'') = Inr cron_request
   \<and> jobsTable (snd (createJob_handler (example_env ''id-1'' cron_request)
                       (BodyText ''request'') empty_world)) ''id-1''
       = Some (new_job (example_env ''id-1'' cron_request) cron_request)
   \<and> jobsTable empty_world ''id-1'' = None
   \<and> type (new_job (example_env ''id-1'' cron_request) cron_request) = ''cron''
   \<and> scheduleExpression (new_job (example_env ''id-1'' cron_request) cron_request) \<noteq> JNull
   \<and> executeAt (new_job (example_env ''id-1'' cron_request) cron_request) = JNull"
proof -
  let ?env = "example_env ''id-1'' cron_request"
  have b: "parse_body ?env (BodyText ''request'') = Inr cron_request"
    by (simp add: parse_body_def example_env_def cron_request_def)
  have a: "jobsTable (snd (createJob_handler ?env (BodyText ''request'') empty_world)) ''id-1''
           = Some (new_job ?env cron_request)"
    by (simp add: create_defs example_env_def cron_request_def empty_world_def)
  have n: "jobsTable empty_world ''id-1'' \<noteq> Some (new_job ?env cron_request)"
    by (simp add: empty_world_def)
  have ty: "type (new_job ?env cron_request) = ''cron''"
    and f: "\<not> truthy (field cron_request ''executeAt'')"
    by (simp_all add: new_job_def field_def cron_request_def Let_def)
  show ?thesis
    using b a ty f createJob_written_record[OF b a n]
    by (simp add: empty_world_def)
qed

text \<open>
  Claim C8. In a CreateJob of type once or cron that passes validation, the write of
  the job item is the first command sent, and only rule, permission and target
  commands follow it. So whenever a registration command was sent, whether it
  succeeded or was rejected, the job item is in the table afterwards; and a creation
  answered 201 sent the write and then the three registration commands.
\<close>

theorem createJob_write_then_register:
  assumes body: "parse_body env ev_body = Inr b"
    and ty: "field b ''type'' = Some (JStr ''once'') \<or> field b ''type'' = Some (JStr ''cron'')"
    and run: "createJob_handler env ev_body w = (r, w')"
    and valid: "statusCode r \<noteq> 400"
  shows "\<exists>rest. calls w' = calls w @ PutJobCommand (new_job env b) # rest
           \<and> (\<forall>c\<in>set rest. is_registration c)
           \<and> (rest \<noteq> [] \<longrightarrow> jobsTable w' (uuidv4 env) = Some (new_job env b))
           \<and> (statusCode r = 201 \<longrightarrow> length rest = 3)"
proof -
  let ?j = "new_job env b"
  have tyj: "type ?j = ''once'' \<or> type ?j = ''cron''" and idj: "jobId ?j = uuidv4 env"
    using ty by (auto simp: new_job_def Let_def)
  from body run show ?thesis
  proof (cases rule: createJob_cases)
    case rejected
    with valid show ?thesis by simp
  next
    case saved
    obtain x w1 where put: "send env (PutJobCommand ?j) w = (x, w1)"
      by (cases "send env (PutJobCommand ?j) w")
    show ?thesis
    proof (cases x)
      case (Some e)
      then have "w' = w1" "statusCode r = 500"
        using saved(1) put by (auto simp: save_and_schedule_def Let_def create_failed_def)
      moreover have "calls w1 = calls w @ [PutJobCommand ?j]"
        using send_calls[of env "PutJobCommand ?j" w] put by simp
      ultimately show ?thesis by (intro exI[of _ "[]"]) simp
    next
      case None
      note p = send_PutJob[OF put[unfolded None]]
      obtain y w2 where as: "after_save env ?j (field b ''payload'') w1 = (y, w2)"
        by (cases "after_save env ?j (field b ''payload'') w1")
      from after_save_log[OF as tyj] obtain rest where
        rest: "calls w2 = calls w1 @ rest" "\<forall>c\<in>set rest. is_registration c"
              "\<not> isl y \<longrightarrow> length rest = 3" by blast
      have w2: "w' = w2" and st: "statusCode r = 201 \<longrightarrow> \<not> isl y"
        using saved(1) put None as
        by (auto simp: save_and_schedule_def Let_def create_failed_def split: sum.splits)
      have "jobsTable w2 (uuidv4 env) = Some ?j"
        using after_save_jobsTable[OF as] p idj by simp
      with rest w2 st p show ?thesis by (intro exI[of _ rest]) simp
    qed
  qed
qed

text \<open>The example: the rule engine rejects the target of a once job due at 5000; the
  creation is answered 500 and the job item stays in the table.\<close>

theorem createJob_write_then_register_witness:
  "statusCode (fst (createJob_handler
       ((example_env ''id-1'' (once_request 5000))\<lparr>fault := targets_rejected\<rparr>)
       (BodyText ''request'') empty_world)) = 500
   \<and> (\<exists>rest. calls (snd (createJob_handler
                 ((example_env ''id-1'' (once_request 5000))\<lparr>fault := targets_rejected\<rparr>)
                 (BodyText ''request'') empty_world))
            = PutJobCommand (new_job ((example_env ''id-1'' (once_request 5000))\<lparr>fault := targets_rejected\<rparr>)
                               (once_request 5000)) # rest
          \<and> rest \<noteq> [] \<and> (\<forall>c\<in>set rest. is_registration c))
   \<and> jobsTable (snd (createJob_handler
         ((example_env ''id-1'' (once_request 5000))\<lparr>fault := targets_rejected\<rparr>)
         (BodyText ''request'') empty_world)) ''id-1''
       = Some (new_job ((example_env ''id-1'' (once_request 5000))\<lparr>fault := targets_rejected\<rparr>)
                 (once_request 5000))"
proof -
  let ?env = "(example_env ''id-1'' (once_request 5000))\<lparr>fault := targets_rejected\<rparr>"
  let ?run = "createJob_handler ?env (BodyText ''request'') empty_world"
  have b: "parse_body ?env (BodyText ''request'') = Inr (once_request 5000)"
    by (simp add: parse_body_def example_env_def once_request_def)
  have t: "field (once_request 5000) ''type'' = Some (JStr ''once'')
           \<or> field (once_request 5000) ''type'' = Some (JStr ''cron'')"
    by (simp add: field_def once_request_def)
  have r: "?run = (fst ?run, snd ?run)" by simp
  have st: "statusCode (fst ?run) = 500"
    by (simp add: create_defs example_env_def once_request_def empty_world_def targets_rejected_def)
  have ne: "calls (snd ?run) \<noteq> [PutJobCommand (new_job ?env (once_request 5000))]"
    by (simp add: create_defs example_env_def once_request_def empty_world_def targets_rejected_def)
  have v: "statusCode (fst ?run) \<noteq> 400" using st by simp
  have u: "uuidv4 ?env = ''id-1''" and c0: "calls empty_world = []"
    by (simp_all add: example_env_def empty_world_def)
  from createJob_write_then_register[OF b t r v] obtain rest where
    "calls (snd ?run) = calls empty_world @ PutJobCommand (new_job ?env (once_request 5000)) # rest"
    "\<forall>c\<in>set rest. is_registration c"
    "rest \<noteq> [] \<longrightarrow> jobsTable (snd ?run) (uuidv4 ?env) = Some (new_job ?env (once_request 5000))"
    by blast
  with ne st u c0 show ?thesis by auto
qed

section \<open>The job executor: properties\<close>

lemma effect_invocationsTable:
  "\<not> is_table_command c \<Longrightarrow> effect c w = Inr w' \<Longrightarrow> invocationsTable w' = invocationsTable w"
  by (cases c) (auto split: option.splits if_splits)

lemma send_invocationsTable:
  "\<not> is_table_command c \<Longrightarrow> invocationsTable (snd (send env c w)) = invocationsTable w"
  by (auto simp: send_def Let_def split: option.splits sum.splits dest: effect_invocationsTable)

lemma cleanup_rule_tables:
  "jobsTable (cleanup_rule env j w) = jobsTable w
   \<and> invocationsTable (cleanup_rule env j w) = invocationsTable w"
proof (cases "type j = ''once'' \<and> truthy_str (ruleName j)")
  case False
  then show ?thesis by (auto simp: cleanup_rule_def)
next
  case True
  let ?rn = "the (ruleName j)"
  let ?c1 = "RemoveTargetsCommand ?rn [''1'']"
  let ?c2 = "DeleteRuleCommand ?rn"
  let ?c3 = "RemovePermissionCommand (?rn @ ''-permission'')"
  have s: "\<And>c v. \<not> writes_jobs c \<Longrightarrow> \<not> is_table_command c \<Longrightarrow>
             jobsTable (snd (send env c v)) = jobsTable v
             \<and> invocationsTable (snd (send env c v)) = invocationsTable v"
    by (simp add: send_jobsTable send_invocationsTable)
  obtain x1 w1 where 1: "send env ?c1 w = (x1, w1)" by (cases "send env ?c1 w")
  obtain x2 w2 where 2: "send env ?c2 w1 = (x2, w2)" by (cases "send env ?c2 w1")
  obtain x3 w3 where 3: "send env ?c3 w2 = (x3, w3)" by (cases "send env ?c3 w2")
  from s[of ?c1 w] s[of ?c2 w1] s[of ?c3 w2] 1 2 3 True show ?thesis
    by (auto simp: cleanup_rule_def Let_def split: option.splits)
qed

lemma send_table_ok:
  assumes "\<forall>c. is_table_command c \<longrightarrow> fault env c = None"
  shows "send env (GetCommand k) w = (None, w\<lparr>calls := calls w @ [GetCommand k]\<rparr>)"
    and "send env (PutInvocationCommand i) w
         = (None, w\<lparr>calls := calls w @ [PutInvocationCommand i],
                     invocationsTable := (invocationsTable w)(invocationId i \<mapsto> i)\<rparr>)"
    and "jobsTable w k = Some j \<Longrightarrow> send env (UpdateCommand k n ts st) w
         = (None, w\<lparr>calls := calls w @ [UpdateCommand k n ts st],
                     jobsTable := (jobsTable w)(k \<mapsto>
                        j\<lparr>invocationCount := invocationCount j + n, lastExecutedAt := Some ts,
                          updatedAt := ts, status := st\<rparr>)\<rparr>)"
  using assms by (simp_all add: send_def Let_def)

lemma dispatch_tables:
  assumes ev: "ev_jobId event = Some jid" "jid \<noteq> []"
    and present: "jobsTable w jid = Some j"
    and ok: "\<forall>c. is_table_command c \<longrightarrow> fault env c = None"
  shows "jobsTable (snd (jobExecutor_handler env event w))
         = (jobsTable w)(jid \<mapsto> j\<lparr>invocationCount := invocationCount j + 1,
              lastExecutedAt := Some (now env 0), updatedAt := now env 0,
              status := newStatus j (isl (executeJobLogic env j (or_else (ev_payload event) (JObj []))))\<rparr>)"
    and "invocationsTable (snd (jobExecutor_handler env event w)) (uuidv4 env)
         = Some (finished_invocation
              \<lparr>invocationId = uuidv4 env, inv_jobId = jid, timestamp = now env 0,
                inv_status = ''running'', startedAt = now env 1,
                inv_input = Some (or_else (ev_payload event) (JObj [])),
                completedAt = None, duration = None, inv_error = None, errorStack = None,
                inv_output = None\<rparr>
              (executeJobLogic env j (or_else (ev_payload event) (JObj [])))
              (now env 2) (now env 2 - now env 1))"
    and "statusCode (fst (jobExecutor_handler env event w))
         = (if isl (executeJobLogic env j (or_else (ev_payload event) (JObj []))) then 500 else 200)"
  using ev present
  by (auto simp: jobExecutor_handler_def run_job_def truthy_str_def Let_def send_table_ok[OF ok]
        cleanup_rule_tables finished_invocation_def split: sum.splits)



text \<open>
  Claim C2, as stated: after the update of the job, \<open>lastExecutedAt\<close> and \<open>updatedAt\<close>
  equal the invocation's \<open>completedAt\<close>. The update writes the \<open>timestamp\<close> read at the
  entry of the handler (line 17), the invocation's \<open>completedAt\<close> is the \<open>endTime\<close> read
  after the job logic (line 83): with a clock that advances they differ.
\<close>

theorem dispatch_timestamps_counterexample:
  "map_option lastExecutedAt (jobsTable (snd (jobExecutor_handler (example_env ''inv-1'' JNull) plain_event created_cron)) ''id-1'') = Some (Some 1000)
   \<and> map_option updatedAt (jobsTable (snd (jobExecutor_handler (example_env ''inv-1'' JNull) plain_event created_cron)) ''id-1'') = Some 1000
   \<and> map_option completedAt (invocationsTable (snd (jobExecutor_handler (example_env ''inv-1'' JNull) plain_event created_cron)) ''inv-1'') = Some (Some 1200)"
  by (simp add: created_cron_def plain_event_def create_defs exec_defs example_env_def
        cron_request_def empty_world_def)

text \<open>
  Claim C2, amended. After the update of the job, \<open>lastExecutedAt\<close> and \<open>updatedAt\<close> both
  equal the invocation's \<open>timestamp\<close>, the time read when the handler was entered; the
  invocation's \<open>completedAt\<close> is the time read after the job logic ran.
\<close>

theorem dispatch_timestamps:
  assumes ev: "ev_jobId event = Some jid" "jid \<noteq> []"
    and present: "jobsTable w jid = Some j"
    and ok: "\<forall>c. is_table_command c \<longrightarrow> fault env c = None"
  shows "\<exists>j' i. jobsTable (snd (jobExecutor_handler env event w)) jid = Some j'
           \<and> invocationsTable (snd (jobExecutor_handler env event w)) (uuidv4 env) = Some i
           \<and> lastExecutedAt j' = Some (timestamp i) \<and> updatedAt j' = timestamp i
           \<and> timestamp i = now env 0 \<and> completedAt i = Some (now env 2)"
  by (auto simp: dispatch_tables(1,2)[OF ev present ok] finished_invocation_def split: sum.splits)

theorem dispatch_timestamps_witness:
  "jobsTable created_once ''id-1'' \<noteq> None
   \<and> map_option lastExecutedAt (jobsTable (snd (jobExecutor_handler (example_env ''inv-1'' JNull) plain_event created_once)) ''id-1'') = Some (Some 1000)
   \<and> map_option updatedAt (jobsTable (snd (jobExecutor_handler (example_env ''inv-1'' JNull) plain_event created_once)) ''id-1'') = Some 1000
   \<and> map_option timestamp (invocationsTable (snd (jobExecutor_handler (example_env ''inv-1'' JNull) plain_event created_once)) ''inv-1'') = Some 1000"
proof -
  let ?j = "new_job (example_env ''id-1'' (once_request 5000)) (once_request 5000)"
  let ?env = "example_env ''inv-1'' JNull"
  have ev: "ev_jobId plain_event = Some ''id-1''" "''id-1'' \<noteq> []"
    by (simp_all add: plain_event_def)
  have present: "jobsTable created_once ''id-1'' = Some ?j"
    by (simp add: created_once_def create_defs example_env_def once_request_def empty_world_def)
  have ok: "\<forall>c. is_table_command c \<longrightarrow> fault ?env c = None"
    by (simp add: example_env_def)
  have e: "uuidv4 ?env = ''inv-1''" "now ?env 0 = 1000"
    by (simp_all add: example_env_def)
  from dispatch_timestamps[OF ev present ok] e present show ?thesis by auto
qed

text \<open>
  Claim C9. A dispatch whose job id is not in the jobs table, the read of the table not
  being rejected, is answered 404 (400 when the id is empty) as a value, not an
  exception; no invocation item is written, the jobs table, the rules and the
  permissions are unchanged, and the read is the only command sent.
\<close>

theorem dispatch_absent_job:
  assumes ev: "ev_jobId event = Some jid"
    and absent: "jobsTable w jid = None"
    and ok: "fault env (GetCommand jid) = None"
  shows "statusCode (fst (jobExecutor_handler env event w)) = (if jid = [] then 400 else 404)
       \<and> invocationsTable (snd (jobExecutor_handler env event w)) = invocationsTable w
       \<and> jobsTable (snd (jobExecutor_handler env event w)) = jobsTable w
       \<and> rules (snd (jobExecutor_handler env event w)) = rules w
       \<and> permissions (snd (jobExecutor_handler env event w)) = permissions w
       \<and> calls (snd (jobExecutor_handler env event w))
           = (if jid = [] then calls w else calls w @ [GetCommand jid])"
  using assms
  by (auto simp: jobExecutor_handler_def truthy_str_def Let_def send_def bad_request_def)

theorem dispatch_absent_job_witness:
  "jobsTable created_cron ''gone'' = None
   \<and> statusCode (fst (jobExecutor_handler (example_env ''inv-1'' JNull)
                    \<lparr>ev_jobId = Some ''gone'', ev_payload = None\<rparr> created_cron)) = 404
   \<and> invocationsTable (snd (jobExecutor_handler (example_env ''inv-1'' JNull)
                    \<lparr>ev_jobId = Some ''gone'', ev_payload = None\<rparr> created_cron))
       = invocationsTable created_cron
   \<and> jobsTable (snd (jobExecutor_handler (example_env ''inv-1'' JNull)
                    \<lparr>ev_jobId = Some ''gone'', ev_payload = None\<rparr> created_cron))
       = jobsTable created_cron"
proof -
  let ?env = "example_env ''inv-1'' JNull"
  let ?ev = "\<lparr>ev_jobId = Some ''gone'', ev_payload = None\<rparr>"
  have ev: "ev_jobId ?ev = Some ''gone''" by simp
  have absent: "jobsTable created_cron ''gone'' = None"
    by (simp add: created_cron_def create_defs example_env_def cron_request_def empty_world_def)
  have ok: "fault ?env (GetCommand ''gone'') = None"
    by (simp add: example_env_def)
  from dispatch_absent_job[OF ev absent ok] absent show ?thesis by simp
qed

text \<open>
  The job item that CreateJob writes has no \<open>ruleName\<close>, and the executor's cleanup does
  nothing for such an item. No handler ever stores a \<open>ruleName\<close>: that no item carries
  one is an invariant of CreateJob, of the executor and of DeleteJob, and it holds in the
  empty world. Under it a dispatch leaves the rules and permissions as they were,
  whatever the services do.
\<close>

lemma created_record_has_no_ruleName: "ruleName (new_job env b) = None"
  by (simp add: new_job_def Let_def)

lemma cleanup_skipped: "ruleName j = None \<Longrightarrow> cleanup_rule env j w = w"
  by (simp add: cleanup_rule_def truthy_str_def)

lemma effect_no_ruleName:
  "effect c w = Inr w' \<Longrightarrow> no_ruleName w \<Longrightarrow> \<not> stores_ruleName c \<Longrightarrow> no_ruleName w'"
  by (cases c) (auto simp: no_ruleName_def split: option.splits if_splits)

lemma send_no_ruleName:
  assumes "send env c w = (x, w1)" and "no_ruleName w" and "\<not> stores_ruleName c"
  shows "no_ruleName w1"
proof -
  have "no_ruleName (w\<lparr>calls := calls w @ [c]\<rparr>)"
    using assms(2) by (simp add: no_ruleName_def)
  with assms(1,3) show ?thesis
    by (auto simp: send_def Let_def split: option.splits sum.splits dest: effect_no_ruleName)
qed

lemma send_no_ruleName_snd:
  "no_ruleName w \<Longrightarrow> \<not> stores_ruleName c \<Longrightarrow> no_ruleName (snd (send env c w))"
  using send_no_ruleName[of env c w "fst (send env c w)" "snd (send env c w)"] by simp

lemma register_rule_no_ruleName:
  "register_rule env rn expr inp w = (x, w1) \<Longrightarrow> no_ruleName w \<Longrightarrow> no_ruleName w1"
  by (auto simp: register_rule_def add_permission_def split: prod.splits option.splits if_splits
           dest!: send_no_ruleName)

lemma after_save_no_ruleName:
  "after_save env j p w = (x, w1) \<Longrightarrow> no_ruleName w \<Longrightarrow> no_ruleName w1"
  by (auto simp: after_save_def Let_def split: prod.splits option.splits if_splits
           dest: register_rule_no_ruleName send_no_ruleName)

lemma createJob_no_ruleName:
  assumes "no_ruleName w"
  shows "no_ruleName (snd (createJob_handler env ev_body w))"
proof (cases "parse_body env ev_body")
  case (Inl e)
  with assms show ?thesis by (simp add: createJob_handler_def)
next
  case (Inr b)
  obtain r w' where run: "createJob_handler env ev_body w = (r, w')"
    by (cases "createJob_handler env ev_body w")
  from Inr run show ?thesis
  proof (cases rule: createJob_cases)
    case rejected
    with assms run show ?thesis by simp
  next
    case saved
    have "\<not> stores_ruleName (PutJobCommand (new_job env b))"
      by (simp add: new_job_def Let_def)
    with saved(1) assms have "no_ruleName w'"
      by (auto simp: save_and_schedule_def Let_def split: prod.splits option.splits sum.splits
               dest: send_no_ruleName after_save_no_ruleName)
    with run show ?thesis by simp
  qed
qed

lemma cleanup_rule_no_ruleName:
  assumes "no_ruleName w"
  shows "no_ruleName (cleanup_rule env j w)"
proof -
  let ?rn = "the (ruleName j)"
  let ?c1 = "RemoveTargetsCommand ?rn [''1'']"
  let ?c2 = "DeleteRuleCommand ?rn"
  let ?c3 = "RemovePermissionCommand (?rn @ ''-permission'')"
  obtain x1 w1 where 1: "send env ?c1 w = (x1, w1)" by (cases "send env ?c1 w")
  obtain x2 w2 where 2: "send env ?c2 w1 = (x2, w2)" by (cases "send env ?c2 w1")
  obtain x3 w3 where 3: "send env ?c3 w2 = (x3, w3)" by (cases "send env ?c3 w2")
  have n1: "no_ruleName w1" by (rule send_no_ruleName[OF 1 assms]) simp
  have n2: "no_ruleName w2" by (rule send_no_ruleName[OF 2 n1]) simp
  have n3: "no_ruleName w3" by (rule send_no_ruleName[OF 3 n2]) simp
  show ?thesis
    using assms 1 2 3 n1 n2 n3
    by (auto simp: cleanup_rule_def Let_def split: option.splits)
qed

lemma critical_error_no_ruleName:
  "no_ruleName w \<Longrightarrow> no_ruleName (snd (critical_error env jid k e w))"
  by (simp add: critical_error_def Let_def send_no_ruleName_snd)

lemma run_job_no_ruleName:
  assumes "no_ruleName w"
  shows "no_ruleName (snd (run_job env j jid pl w))"
proof -
  let ?i = "\<lparr>invocationId = uuidv4 env, inv_jobId = jid, timestamp = now env 0,
             inv_status = ''running'', startedAt = now env 1, inv_input = Some pl,
             completedAt = None, duration = None, inv_error = None, errorStack = None,
             inv_output = None\<rparr>"
  let ?o = "executeJobLogic env j pl"
  let ?c1 = "PutInvocationCommand ?i"
  let ?c2 = "PutInvocationCommand (finished_invocation ?i ?o (now env 2) (now env 2 - now env 1))"
  let ?c3 = "UpdateCommand jid 1 (now env 0) (newStatus j (isl ?o))"
  obtain x1 w1 where 1: "send env ?c1 w = (x1, w1)" by (cases "send env ?c1 w")
  obtain x2 w2 where 2: "send env ?c2 w1 = (x2, w2)" by (cases "send env ?c2 w1")
  obtain x3 w3 where 3: "send env ?c3 w2 = (x3, w3)" by (cases "send env ?c3 w2")
  have n1: "no_ruleName w1" by (rule send_no_ruleName[OF 1 assms]) simp
  have n2: "no_ruleName w2" by (rule send_no_ruleName[OF 2 n1]) simp
  have n3: "no_ruleName w3" by (rule send_no_ruleName[OF 3 n2]) simp
  show ?thesis
    using 1 2 3 n1 n2 n3
    by (auto simp: run_job_def Let_def critical_error_no_ruleName cleanup_rule_no_ruleName
             split: option.splits sum.splits)
qed

lemma jobExecutor_no_ruleName:
  assumes "no_ruleName w"
  shows "no_ruleName (snd (jobExecutor_handler env event w))"
proof -
  let ?c = "GetCommand (the (ev_jobId event))"
  obtain x1 w1 where 1: "send env ?c w = (x1, w1)" by (cases "send env ?c w")
  have n1: "no_ruleName w1" by (rule send_no_ruleName[OF 1 assms]) simp
  show ?thesis
    using assms 1 n1
    by (auto simp: jobExecutor_handler_def Let_def critical_error_no_ruleName run_job_no_ruleName
             split: option.splits)
qed

lemma delete_rule_no_ruleName:
  assumes "no_ruleName w"
  shows "no_ruleName (delete_rule env j w)"
proof -
  let ?rn = "the (ruleName j)"
  let ?c0 = "ListTargetsByRuleCommand ?rn"
  let ?c2 = "DeleteRuleCommand ?rn"
  let ?c3 = "RemovePermissionCommand (?rn @ ''-permission'')"
  obtain x0 w0 where 0: "send env ?c0 w = (x0, w0)" by (cases "send env ?c0 w")
  let ?targets = "case rules w0 ?rn of None \<Rightarrow> [] | Some r \<Rightarrow> rule_targets r"
  let ?c1 = "RemoveTargetsCommand ?rn (map fst ?targets)"
  have n0: "no_ruleName w0" by (rule send_no_ruleName[OF 0 assms]) simp
  obtain x1 w1 where 1: "(if ?targets \<noteq> [] then send env ?c1 w0 else (None, w0)) = (x1, w1)"
    by (cases "if ?targets \<noteq> [] then send env ?c1 w0 else (None, w0)")
  have n1: "no_ruleName w1"
  proof (cases "?targets \<noteq> []")
    case True
    with 1 have "send env ?c1 w0 = (x1, w1)" by simp
    then show ?thesis by (rule send_no_ruleName[OF _ n0]) simp
  next
    case False
    with 1 n0 show ?thesis by simp
  qed
  obtain x2 w2 where 2: "send env ?c2 w1 = (x2, w2)" by (cases "send env ?c2 w1")
  have n2: "no_ruleName w2" by (rule send_no_ruleName[OF 2 n1]) simp
  obtain x3 w3 where 3: "send env ?c3 w2 = (x3, w3)" by (cases "send env ?c3 w2")
  have n3: "no_ruleName w3" by (rule send_no_ruleName[OF 3 n2]) simp
  show ?thesis
    using assms 0 1 2 3 n0 n1 n2 n3
    by (auto simp: delete_rule_def Let_def split: option.splits)
qed

lemma deleteJob_no_ruleName:
  assumes "no_ruleName w"
  shows "no_ruleName (snd (deleteJob_handler env path_jobId w))"
proof -
  let ?jid = "the path_jobId"
  obtain x1 w1 where 1: "send env (GetCommand ?jid) w = (x1, w1)"
    by (cases "send env (GetCommand ?jid) w")
  have n1: "no_ruleName w1" by (rule send_no_ruleName[OF 1 assms]) simp
  have d: "no_ruleName w'" if "send env (DeleteCommand ?jid) (delete_rule env j w1) = (x, w')"
    for j x w'
    by (rule send_no_ruleName[OF that delete_rule_no_ruleName[OF n1]]) simp
  show ?thesis
    using assms 1 n1
    by (auto simp: deleteJob_handler_def Let_def split: option.splits prod.splits dest: d)
qed


lemma effect_rules:
  "is_table_command c \<Longrightarrow> effect c w = Inr w' \<Longrightarrow>
     rules w' = rules w \<and> permissions w' = permissions w"
  by (cases c) (auto split: option.splits)

lemma send_rules:
  assumes "send env c w = (x, w1)" and "is_table_command c"
  shows "rules w1 = rules w \<and> permissions w1 = permissions w"
  using assms
  by (auto simp: send_def Let_def split: option.splits sum.splits dest: effect_rules)

lemma critical_error_rules:
  "rules (snd (critical_error env jid k e w)) = rules w
   \<and> permissions (snd (critical_error env jid k e w)) = permissions w"
proof -
  let ?i = "\<lparr>invocationId = uuidv4 env,
             inv_jobId = (if truthy_str jid then the jid else ''unknown''),
             timestamp = now env 0, inv_status = ''failed'', startedAt = now env 0,
             inv_input = None, completedAt = Some (now env k),
             duration = Some (now env (Suc k) - now env 0),
             inv_error = Some (message e), errorStack = Some (stack e), inv_output = None\<rparr>"
  obtain x w1 where 1: "send env (PutInvocationCommand ?i) w = (x, w1)"
    by (cases "send env (PutInvocationCommand ?i) w")
  from send_rules[OF 1] 1 show ?thesis by (simp add: critical_error_def Let_def)
qed

lemma run_job_never_cleans:
  assumes "ruleName j = None"
  shows "rules (snd (run_job env j jid pl w)) = rules w
       \<and> permissions (snd (run_job env j jid pl w)) = permissions w"
proof -
  let ?i = "\<lparr>invocationId = uuidv4 env, inv_jobId = jid, timestamp = now env 0,
             inv_status = ''running'', startedAt = now env 1, inv_input = Some pl,
             completedAt = None, duration = None, inv_error = None, errorStack = None,
             inv_output = None\<rparr>"
  let ?o = "executeJobLogic env j pl"
  let ?c1 = "PutInvocationCommand ?i"
  let ?c2 = "PutInvocationCommand (finished_invocation ?i ?o (now env 2) (now env 2 - now env 1))"
  let ?c3 = "UpdateCommand jid 1 (now env 0) (newStatus j (isl ?o))"
  obtain x1 w1 where 1: "send env ?c1 w = (x1, w1)" by (cases "send env ?c1 w")
  obtain x2 w2 where 2: "send env ?c2 w1 = (x2, w2)" by (cases "send env ?c2 w1")
  obtain x3 w3 where 3: "send env ?c3 w2 = (x3, w3)" by (cases "send env ?c3 w2")
  from send_rules[OF 1] send_rules[OF 2] send_rules[OF 3]
  have r: "rules w1 = rules w" "permissions w1 = permissions w"
    "rules w2 = rules w" "permissions w2 = permissions w"
    "rules w3 = rules w" "permissions w3 = permissions w"
    by simp_all
  show ?thesis
    using 1 2 3 r
    by (auto simp: run_job_def Let_def critical_error_rules cleanup_skipped[OF assms]
             split: option.splits sum.splits)
qed

lemma jobExecutor_never_cleans:
  assumes "no_ruleName w"
  shows "rules (snd (jobExecutor_handler env event w)) = rules w
       \<and> permissions (snd (jobExecutor_handler env event w)) = permissions w"
proof -
  let ?c = "GetCommand (the (ev_jobId event))"
  obtain x1 w1 where 1: "send env ?c w = (x1, w1)" by (cases "send env ?c w")
  from send_rules[OF 1] have r: "rules w1 = rules w" "permissions w1 = permissions w"
    by simp_all
  have j: "jobsTable w1 = jobsTable w"
    using send_jobsTable[of ?c env w] 1 by simp
  have n: "ruleName j = None" if "jobsTable w1 k = Some j" for k j
    using that assms j by (simp add: no_ruleName_def)
  show ?thesis
    using 1 r
    by (auto simp: jobExecutor_handler_def Let_def critical_error_rules bad_request_def
          run_job_never_cleans[OF n] split: option.splits)
qed

lemma no_ruleName_empty: "no_ruleName empty_world"
  by (simp add: no_ruleName_def empty_world_def)

text \<open>
  For an item that does carry a \<open>ruleName\<close>, the cleanup removes the rule and the
  permission when its three commands succeed, and a rejected cleanup command never
  changes the response.
\<close>

lemma cleanup_rule_deletes:
  assumes "type j = ''once''" and "ruleName j = Some rn" and "rn \<noteq> []"
    and "rules w rn = Some r" and "rn @ ''-permission'' \<in> permissions w"
    and "set (map fst (rule_targets r)) \<subseteq> {''1''}"
    and "fault env (RemoveTargetsCommand rn [''1'']) = None"
    and "fault env (DeleteRuleCommand rn) = None"
    and "fault env (RemovePermissionCommand (rn @ ''-permission'')) = None"
  shows "rules (cleanup_rule env j w) = (rules w)(rn := None)
       \<and> permissions (cleanup_rule env j w) = permissions w - {rn @ ''-permission''}"
proof -
  have "filter (\<lambda>t. fst t \<notin> set [''1'']) (rule_targets r) = []"
    using assms(6) by (auto simp: filter_empty_conv)
  then show ?thesis
    using assms by (simp add: cleanup_rule_def truthy_str_def send_def Let_def)
qed

lemma send_same_fault:
  "f c = fault env c \<Longrightarrow> send (env\<lparr>fault := f\<rparr>) c w = send env c w"
  by (simp add: send_def)

lemma critical_error_same_fault:
  assumes "\<forall>c. is_table_command c \<longrightarrow> f c = fault env c"
  shows "critical_error (env\<lparr>fault := f\<rparr>) jid k e w = critical_error env jid k e w"
  using assms by (simp add: critical_error_def Let_def send_same_fault)

lemma dispatch_response_independent_of_cleanup:
  assumes "\<forall>c. is_table_command c \<longrightarrow> f c = fault env c"
  shows "fst (jobExecutor_handler (env\<lparr>fault := f\<rparr>) event w) = fst (jobExecutor_handler env event w)"
  using assms
  by (auto simp: jobExecutor_handler_def run_job_def Let_def send_same_fault
        critical_error_same_fault[OF assms] split: prod.splits option.splits sum.splits)

text \<open>
  Claim C6: the dispatch of a once job that has a registered rule deletes the rule, its
  target and the invoke permission. Evaluated on the once job that CreateJob registers:
  after the creation the rule \<open>job-id-1\<close> exists; the dispatch is answered 200 and the
  job is \<open>completed\<close>, and the rule with its target and the permission are still there.
\<close>

theorem once_rule_survives_dispatch:
  "rules created_once ''job-id-1'' \<noteq> None
   \<and> statusCode (fst (jobExecutor_handler (example_env ''inv-1'' JNull)
                    plain_event created_once)) = 200
   \<and> map_option status (jobsTable (snd (jobExecutor_handler (example_env ''inv-1'' JNull)
                    plain_event created_once)) ''id-1'')
       = Some ''completed''
   \<and> map_option rule_targets (rules (snd (jobExecutor_handler (example_env ''inv-1'' JNull)
                    plain_event created_once)) ''job-id-1'')
       = Some [(''1'', (''id-1'', None))]
   \<and> ''job-id-1-permission'' \<in> permissions (snd (jobExecutor_handler (example_env ''inv-1'' JNull)
                    plain_event created_once))"
  by (simp add: created_once_def plain_event_def create_defs exec_defs example_env_def once_request_def empty_world_def)

section \<open>DeleteJob: properties\<close>

lemma delete_rule_jobsTable: "jobsTable (delete_rule env j w) = jobsTable w"
proof (cases "truthy_str (ruleName j) \<and> (type j = ''once'' \<or> type j = ''cron'')")
  case False
  then show ?thesis by (auto simp: delete_rule_def)
next
  case True
  let ?rn = "the (ruleName j)"
  let ?c0 = "ListTargetsByRuleCommand ?rn"
  let ?c2 = "DeleteRuleCommand ?rn"
  let ?c3 = "RemovePermissionCommand (?rn @ ''-permission'')"
  have s: "\<And>c v. \<not> writes_jobs c \<Longrightarrow> jobsTable (snd (send env c v)) = jobsTable v"
    by (simp add: send_jobsTable)
  obtain x0 w0 where 0: "send env ?c0 w = (x0, w0)" by (cases "send env ?c0 w")
  let ?targets = "case rules w0 ?rn of None \<Rightarrow> [] | Some r \<Rightarrow> rule_targets r"
  let ?c1 = "RemoveTargetsCommand ?rn (map fst ?targets)"
  obtain x1 w1 where 1: "send env ?c1 w0 = (x1, w1)" by (cases "send env ?c1 w0")
  obtain x2 w2 where 2: "send env ?c2 w1 = (x2, w2)" by (cases "send env ?c2 w1")
  obtain x2' w2' where d2: "send env ?c2 w0 = (x2', w2')" by (cases "send env ?c2 w0")
  obtain x3 w3 where 3: "send env ?c3 w2 = (x3, w3)" by (cases "send env ?c3 w2")
  obtain x3' w3' where d3: "send env ?c3 w2' = (x3', w3')" by (cases "send env ?c3 w2'")
  from s[of ?c0 w] s[of ?c1 w0] s[of ?c2 w1] s[of ?c2 w0] s[of ?c3 w2] s[of ?c3 w2']
       0 1 2 d2 3 d3 True
  show ?thesis
    by (auto simp: delete_rule_def Let_def split: option.splits if_splits)
qed

text \<open>
  Claim C7. A DeleteJob call with an id that is not in the jobs table changes nothing
  but the log of commands (one read), and is answered 404 when the read is not
  rejected. A call with an id that is in the table, the read and the delete not being
  rejected, is answered 200 and removes that item and no other.
\<close>

theorem deleteJob_absent_or_present:
  assumes "path_jobId = Some jid" and "jid \<noteq> []"
  shows "(jobsTable w jid = None \<longrightarrow>
            snd (deleteJob_handler env path_jobId w) = w\<lparr>calls := calls w @ [GetCommand jid]\<rparr>
            \<and> (fault env (GetCommand jid) = None \<longrightarrow>
                 statusCode (fst (deleteJob_handler env path_jobId w)) = 404))
       \<and> (jobsTable w jid \<noteq> None \<and> fault env (GetCommand jid) = None
            \<and> fault env (DeleteCommand jid) = None \<longrightarrow>
            statusCode (fst (deleteJob_handler env path_jobId w)) = 200
            \<and> jobsTable (snd (deleteJob_handler env path_jobId w)) = (jobsTable w)(jid := None))"
  using assms
  by (auto simp: deleteJob_handler_def truthy_str_def Let_def send_def delete_rule_jobsTable
           split: option.splits)

theorem deleteJob_absent_or_present_witness:
  "jobsTable created_cron ''id-1'' \<noteq> None
   \<and> statusCode (fst (deleteJob_handler (example_env ''r-2'' JNull) (Some ''id-1'') created_cron)) = 200
   \<and> jobsTable (snd (deleteJob_handler (example_env ''r-2'' JNull) (Some ''id-1'') created_cron)) ''id-1''
       = None
   \<and> jobsTable created_cron ''gone'' = None
   \<and> statusCode (fst (deleteJob_handler (example_env ''r-2'' JNull) (Some ''gone'') created_cron)) = 404
   \<and> jobsTable (snd (deleteJob_handler (example_env ''r-2'' JNull) (Some ''gone'') created_cron))
       = jobsTable created_cron"
proof -
  let ?env = "example_env ''r-2'' JNull"
  have present: "jobsTable created_cron ''id-1'' \<noteq> None"
    and absent: "jobsTable created_cron ''gone'' = None"
    by (simp_all add: created_cron_def create_defs example_env_def cron_request_def empty_world_def)
  have ok: "fault ?env (GetCommand ''id-1'') = None" "fault ?env (DeleteCommand ''id-1'') = None"
    "fault ?env (GetCommand ''gone'') = None"
    by (simp_all add: example_env_def)
  have ne: "''id-1'' \<noteq> []" "''gone'' \<noteq> []" by simp_all
  from deleteJob_absent_or_present[OF refl ne(1), of created_cron ?env] present ok
  have a: "statusCode (fst (deleteJob_handler ?env (Some ''id-1'') created_cron)) = 200"
    "jobsTable (snd (deleteJob_handler ?env (Some ''id-1'') created_cron)) ''id-1'' = None"
    by simp_all
  from deleteJob_absent_or_present[OF refl ne(2), of created_cron ?env] absent ok
  have b: "statusCode (fst (deleteJob_handler ?env (Some ''gone'') created_cron)) = 404"
    "jobsTable (snd (deleteJob_handler ?env (Some ''gone'') created_cron)) = jobsTable created_cron"
    by simp_all
  from present absent a b show ?thesis by simp
qed

section \<open>Statistics: properties\<close>






end
